theory Spec2Isabelle
  imports Main "HOL-Library.Word"
begin

section \<open>Data model of chess.c\<close>

text \<open>
  The piece codes of \<^verbatim>\<open>enum pieces\<close> and the two macros. A square holds a C \<^verbatim>\<open>int\<close>:
  0 for an empty square, a positive code for a White piece, a negative one for a Black
  piece. All values the program computes with are small (coordinates, piece codes, +1/-1),
  so C's \<^verbatim>\<open>int\<close> is modelled by \<open>int\<close>.
\<close>

abbreviation (input) EMPTY :: int where "EMPTY \<equiv> 0"
abbreviation (input) PAWN :: int where "PAWN \<equiv> 1"
abbreviation (input) KNIGHT :: int where "KNIGHT \<equiv> 2"
abbreviation (input) BISHOP :: int where "BISHOP \<equiv> 3"
abbreviation (input) ROOK :: int where "ROOK \<equiv> 4"
abbreviation (input) QUEEN :: int where "QUEEN \<equiv> 5"
abbreviation (input) KING :: int where "KING \<equiv> 6"
abbreviation (input) BOARD_SIZE :: int where "BOARD_SIZE \<equiv> 8"

text \<open>
  \<^verbatim>\<open>struct chess_game\<close>. The array \<^verbatim>\<open>int board[8][8]\<close> is stored row after row, so
  \<^verbatim>\<open>board[r][c]\<close> is the int at offset \<open>8 * r + c\<close> from the start of the array; the
  field \<open>board\<close> maps that offset to its content. Offsets 0..63 are the 64 squares. A
  subscript outside 0..7 is undefined behaviour in C; here it reads the int the offset
  reaches (\<^verbatim>\<open>board[r][-1]\<close> is \<^verbatim>\<open>board[r-1][7]\<close>), and an offset outside 0..63 reads
  whatever the function holds there, which no theorem below constrains.
  \<^verbatim>\<open>white_king\<close> and \<^verbatim>\<open>black_king\<close> are the two-element arrays: the first component
  is element [0], the second is element [1].
\<close>

record chess_game =
  board :: "int \<Rightarrow> int"
  white_king :: "int \<times> int"
  black_king :: "int \<times> int"
  current_turn :: int
  check :: bool

text \<open>
  The globals of the module that the rules engine reads or writes: \<^verbatim>\<open>game\<close>,
  \<^verbatim>\<open>player[0]\<close>, \<^verbatim>\<open>cpu[0]\<close>, \<^verbatim>\<open>game_init\<close> and \<^verbatim>\<open>checkmate\<close>. Several locals of
  the source are read without having been assigned on every path (\<^verbatim>\<open>opponent\<close>,
  \<^verbatim>\<open>pawn_direction\<close>, \<^verbatim>\<open>match\<close>, \<^verbatim>\<open>color\<close>, \<^verbatim>\<open>king_row\<close>, ...). The value such a
  read delivers is given by \<open>indet_int\<close> and \<open>indet_char\<close>, indexed by the name of the
  local; the theorems hold for every choice of these two functions.
\<close>

record module_state =
  game :: chess_game
  player :: char
  cpu :: char
  game_init :: bool
  checkmate :: bool
  indet_int :: "string \<Rightarrow> int"
  indet_char :: "string \<Rightarrow> char"

definition cell :: "chess_game \<Rightarrow> int \<Rightarrow> int \<Rightarrow> int" where
  "cell g r c = board g (8 * r + c)"

definition set_cell :: "chess_game \<Rightarrow> int \<Rightarrow> int \<Rightarrow> int \<Rightarrow> chess_game" where
  "set_cell g r c v = g\<lparr>board := (board g)(8 * r + c := v)\<rparr>"

text \<open>Reading and writing \<^verbatim>\<open>game.board[r][c]\<close> of the global game.\<close>

definition gcell :: "module_state \<Rightarrow> int \<Rightarrow> int \<Rightarrow> int" where
  "gcell w r c = cell (game w) r c"

definition gset :: "module_state \<Rightarrow> int \<Rightarrow> int \<Rightarrow> int \<Rightarrow> module_state" where
  "gset w r c v = w\<lparr>game := set_cell (game w) r c v\<rparr>"

text \<open>
  A directive buffer \<^verbatim>\<open>char arr[4]\<close> is zero-filled and then holds at most three
  characters read by \<^verbatim>\<open>sscanf("%3s")\<close>. It is modelled by the string of its characters;
  a read past them gives the NUL that fills the rest of the buffer.
\<close>

definition at :: "string \<Rightarrow> nat \<Rightarrow> char" where
  "at s i = (if i < length s then s ! i else CHR 0x00)"

definition on_board :: "int \<Rightarrow> int \<Rightarrow> bool" where
  "on_board x y = (x \<ge> 0 \<and> x < BOARD_SIZE \<and> y \<ge> 0 \<and> y < BOARD_SIZE)"

section \<open>board_init\<close>

text \<open>
  \<^verbatim>\<open>memset(&game, 0, sizeof(game))\<close> clears the 64 squares, both king caches, the turn
  and the check flag; then the pieces are placed.
\<close>

definition zero_game :: "chess_game \<Rightarrow> chess_game" where
  "zero_game g =
     \<lparr>board = (\<lambda>a. if 0 \<le> a \<and> a < 64 then 0 else board g a),
      white_king = (0, 0), black_king = (0, 0), current_turn = 0, check = False\<rparr>"

definition place_pawns :: "chess_game \<Rightarrow> chess_game" where
  "place_pawns g = fold (\<lambda>i g. set_cell (set_cell g 1 i PAWN) 6 i (- PAWN)) [0..7] g"

definition place_pieces :: "chess_game \<Rightarrow> chess_game" where
  "place_pieces g0 =
     (let g = set_cell g0 0 0 ROOK;
          g = set_cell g 0 7 ROOK;
          g = set_cell g 7 0 (- ROOK);
          g = set_cell g 7 7 (- ROOK);
          g = set_cell g 0 1 KNIGHT;
          g = set_cell g 0 6 KNIGHT;
          g = set_cell g 7 1 (- KNIGHT);
          g = set_cell g 7 6 (- KNIGHT);
          g = set_cell g 0 2 BISHOP;
          g = set_cell g 0 5 BISHOP;
          g = set_cell g 7 2 (- BISHOP);
          g = set_cell g 7 5 (- BISHOP);
          g = set_cell g 0 3 QUEEN;
          g = set_cell g 7 3 (- QUEEN);
          g = set_cell g 0 4 KING;
          g = set_cell g 7 4 (- KING)
      in g)"

definition board_init :: "module_state \<Rightarrow> module_state" where
  "board_init w =
     (let g = place_pieces (place_pawns (zero_game (game w)));
          g = g\<lparr>white_king := (4, 0)\<rparr>;
          g = g\<lparr>black_king := (4, 7)\<rparr>;
          g = g\<lparr>current_turn := 1\<rparr>;
          g = g\<lparr>check := False\<rparr>
      in w\<lparr>game := g, game_init := True, checkmate := False\<rparr>)"

section \<open>clear_path\<close>

text \<open>
  The two direction variables of \<^verbatim>\<open>clear_path\<close>. They depend on the start and end
  coordinate only, so the three loops below take these and recompute the direction.
\<close>

definition path_direction :: "int \<Rightarrow> int \<Rightarrow> int" where
  "path_direction a b = (if b - a > 0 then 1 else -1)"

text \<open>The diagonal loop, from the loop variables \<open>i\<close>, \<open>j\<close> on.\<close>

function clear_diagonal ::
  "chess_game \<Rightarrow> int \<Rightarrow> int \<Rightarrow> int \<Rightarrow> int \<Rightarrow> string \<Rightarrow> int \<Rightarrow> int \<Rightarrow> bool" where
  "clear_diagonal g start_row start_col end_row end_col arr i j =
     (let row_direction = path_direction start_row end_row;
          col_direction = path_direction start_col end_col
      in if (if row_direction > 0 then i \<le> end_row else i \<ge> end_row) \<and>
            (if col_direction > 0 then j \<le> end_col else j \<ge> end_col)
         then (if cell g i j \<noteq> EMPTY
               then (if i = end_row \<and> j = end_col
                     then (if at arr 0 = CHR ''x'' then True else False)
                     else False)
               else clear_diagonal g start_row start_col end_row end_col arr
                      (i + row_direction) (j + col_direction))
         else True)"
  by pat_completeness auto
termination
  by (relation "measure (\<lambda>(g, start_row, start_col, end_row, end_col, arr, i, j).
        nat (if end_row - start_row > 0 then end_row + 1 - i else i + 1 - end_row))")
     (auto simp: path_direction_def split: if_splits)

text \<open>The vertical loop (\<^verbatim>\<open>game.board[i][start_col]\<close>).\<close>

function clear_vertical ::
  "chess_game \<Rightarrow> int \<Rightarrow> int \<Rightarrow> int \<Rightarrow> string \<Rightarrow> int \<Rightarrow> bool" where
  "clear_vertical g start_row start_col end_row arr i =
     (let row_direction = path_direction start_row end_row
      in if (if row_direction = 1 then i \<le> end_row else i \<ge> end_row)
         then (if cell g i start_col \<noteq> EMPTY
               then (if i = end_row
                     then (if at arr 0 = CHR ''x'' then True else False)
                     else False)
               else clear_vertical g start_row start_col end_row arr (i + row_direction))
         else True)"
  by pat_completeness auto
termination
  by (relation "measure (\<lambda>(g, start_row, start_col, end_row, arr, i).
        nat (if end_row - start_row > 0 then end_row + 1 - i else i + 1 - end_row))")
     (auto simp: path_direction_def split: if_splits)

text \<open>The horizontal loop (\<^verbatim>\<open>game.board[start_row][j]\<close>).\<close>

function clear_horizontal ::
  "chess_game \<Rightarrow> int \<Rightarrow> int \<Rightarrow> int \<Rightarrow> string \<Rightarrow> int \<Rightarrow> bool" where
  "clear_horizontal g start_row start_col end_col arr j =
     (let col_direction = path_direction start_col end_col
      in if (if col_direction = 1 then j \<le> end_col else j \<ge> end_col)
         then (if cell g start_row j \<noteq> EMPTY
               then (if j = end_col
                     then (if at arr 0 = CHR ''x'' then True else False)
                     else False)
               else clear_horizontal g start_row start_col end_col arr (j + col_direction))
         else True)"
  by pat_completeness auto
termination
  by (relation "measure (\<lambda>(g, start_row, start_col, end_col, arr, j).
        nat (if end_col - start_col > 0 then end_col + 1 - j else j + 1 - end_col))")
     (auto simp: path_direction_def split: if_splits)

declare clear_diagonal.simps [simp del]
declare clear_vertical.simps [simp del]
declare clear_horizontal.simps [simp del]

text \<open>\<^verbatim>\<open>clear_path\<close> reads the global game; the first argument is its current value.\<close>

definition clear_path :: "chess_game \<Rightarrow> int \<Rightarrow> int \<Rightarrow> int \<Rightarrow> int \<Rightarrow> string \<Rightarrow> bool" where
  "clear_path g start_row start_col end_row end_col arr =
     (let row_direction = path_direction start_row end_row;
          col_direction = path_direction start_col end_col
      in if start_row \<noteq> end_row \<and> start_col \<noteq> end_col then
           (if \<bar>end_row - start_row\<bar> = 1 \<and> \<bar>end_col - start_col\<bar> = 1
            then (if cell g end_row end_col \<noteq> EMPTY \<and> at arr 0 \<noteq> CHR ''x'' then False else True)
            else clear_diagonal g start_row start_col end_row end_col arr
                   (start_row + row_direction) (start_col + col_direction))
         else if start_row \<noteq> end_row then
           (if \<bar>end_row - start_row\<bar> = 1
            then (if cell g end_row end_col \<noteq> EMPTY \<and> at arr 0 \<noteq> CHR ''x'' then False else True)
            else if end_row - start_row > 1 \<or> end_row - start_row < -1
            then clear_vertical g start_row start_col end_row arr (start_row + row_direction)
            else True)
         else if start_col \<noteq> end_col then
           (if \<bar>end_col - start_col\<bar> = 1
            then (if cell g end_row end_col \<noteq> EMPTY \<and> at arr 0 \<noteq> CHR ''x'' then False else True)
            else if end_col - start_col > 1 \<or> end_col - start_col < -1
            then clear_horizontal g start_row start_col end_col arr (start_col + col_direction)
            else True)
         else True)"

section \<open>valid_opponent_piece\<close>

text \<open>
  The letter of a piece kind as the \<^verbatim>\<open>switch\<close> statements of the source read it; \<open>None\<close>
  is the \<^verbatim>\<open>default\<close> branch.
\<close>

definition kind_of_letter :: "char \<Rightarrow> int option" where
  "kind_of_letter c =
     (if c = CHR ''P'' then Some 1
      else if c = CHR ''N'' then Some 2
      else if c = CHR ''B'' then Some 3
      else if c = CHR ''R'' then Some 4
      else if c = CHR ''Q'' then Some 5
      else if c = CHR ''K'' then Some 6
      else None)"

text \<open>
  \<open>array\<close> is the pointer \<^verbatim>\<open>&arr[1]\<close>: the directive without its first character. The
  parameter \<^verbatim>\<open>size\<close> of the source is never read and is left out.
\<close>

definition valid_opponent_piece :: "module_state \<Rightarrow> int \<Rightarrow> int \<Rightarrow> int \<Rightarrow> string \<Rightarrow> bool" where
  "valid_opponent_piece w row col piece array =
     (if row < 0 \<or> row \<ge> BOARD_SIZE \<or> col < 0 \<or> col \<ge> BOARD_SIZE then False
      else
        let opponent = gcell w row col;
            match = (if at array 0 = CHR ''W'' then 1
                     else if at array 0 = CHR ''B'' then -1
                     else indet_int w ''match'')
        in case kind_of_letter (at array 1) of
             None \<Rightarrow> False
           | Some k \<Rightarrow>
               (let match = match * k
                in if opponent = EMPTY then False
                   else if ((piece > 0 \<and> opponent < 0) \<or> (piece < 0 \<and> opponent > 0)) \<and>
                           opponent = match
                   then True
                   else False))"

section \<open>king_check\<close>

text \<open>The two tables of \<^verbatim>\<open>king_check\<close>, in the order the source fills them.\<close>

definition directions :: "(int \<times> int) list" where
  "directions = [(1, 0), (-1, 0), (0, 1), (0, -1), (1, 1), (-1, -1), (1, -1), (-1, 1)]"

definition knight_directions :: "(int \<times> int) list" where
  "knight_directions = [(2, 1), (2, -1), (-2, 1), (-2, -1), (1, 2), (1, -2), (-1, 2), (-1, -2)]"

text \<open>
  The \<^verbatim>\<open>while\<close> loop that walks one ray from the square \<open>(x, y)\<close> on. \<open>True\<close> is the
  \<^verbatim>\<open>return true\<close> of the source; \<open>False\<close> is leaving the loop (by \<^verbatim>\<open>break\<close> or at the
  edge of the board), after which the source goes on with the next direction.
  \<^verbatim>\<open>king_check\<close> enters the loop with the eight steps of \<open>directions\<close> only. With the
  step (0, 0) on an empty square the C loop would not end; the first test makes the
  function total there and is never taken from \<^verbatim>\<open>king_check\<close>.
\<close>

function ray_attack :: "chess_game \<Rightarrow> char \<Rightarrow> int \<Rightarrow> int \<Rightarrow> int \<Rightarrow> int \<Rightarrow> bool" where
  "ray_attack g color direction_x direction_y x y =
     (if direction_x = 0 \<and> direction_y = 0 then False
      else if x \<ge> 0 \<and> x < BOARD_SIZE \<and> y \<ge> 0 \<and> y < BOARD_SIZE then
        (if cell g x y \<noteq> EMPTY then
           (if ((color = CHR ''W'' \<and> cell g x y < 0) \<or> (color = CHR ''B'' \<and> cell g x y > 0)) \<and>
               (\<bar>cell g x y\<bar> = QUEEN \<or>
                (\<bar>cell g x y\<bar> = ROOK \<and> (direction_x = 0 \<or> direction_y = 0)) \<or>
                (\<bar>cell g x y\<bar> = BISHOP \<and> direction_x \<noteq> 0 \<and> direction_y \<noteq> 0))
            then True
            else False)
         else ray_attack g color direction_x direction_y (x + direction_x) (y + direction_y))
      else False)"
  by pat_completeness auto
termination
  by (relation "measure (\<lambda>(g, color, direction_x, direction_y, x, y).
        nat (if direction_x > 0 then 8 - x
             else if direction_x < 0 then x + 1
             else if direction_y > 0 then 8 - y
             else y + 1))")
     (auto split: if_splits)

declare ray_attack.simps [simp del]

text \<open>
  \<^verbatim>\<open>king_check(game, king_row, king_col, color)\<close>: \<open>g\<close> is the game the pointer argument
  points to, \<open>w\<close> the module state (the function reads \<^verbatim>\<open>player[0]\<close>). The four parts
  are the four loops of the source, each returning at its first hit.
\<close>

definition king_position :: "chess_game \<Rightarrow> char \<Rightarrow> int \<times> int" where
  "king_position g color =
     (if color = CHR ''W'' then (snd (white_king g), fst (white_king g))
      else (snd (black_king g), fst (black_king g)))"

definition slider_attack :: "chess_game \<Rightarrow> char \<Rightarrow> int \<times> int \<Rightarrow> bool" where
  "slider_attack g color kp =
     list_ex (\<lambda>(direction_x, direction_y).
        ray_attack g color direction_x direction_y (fst kp + direction_x) (snd kp + direction_y))
       directions"

definition knight_attack :: "chess_game \<Rightarrow> char \<Rightarrow> int \<times> int \<Rightarrow> bool" where
  "knight_attack g color kp =
     list_ex (\<lambda>(dx, dy).
        let x = fst kp + dx; y = snd kp + dy
        in x \<ge> 0 \<and> x < BOARD_SIZE \<and> y \<ge> 0 \<and> y < BOARD_SIZE \<and>
           ((color = CHR ''W'' \<and> cell g x y = - KNIGHT) \<or> (color = CHR ''B'' \<and> cell g x y = KNIGHT)))
       knight_directions"

definition pawn_attack :: "module_state \<Rightarrow> chess_game \<Rightarrow> char \<Rightarrow> int \<times> int \<Rightarrow> bool" where
  "pawn_attack w g color kp =
     (let pawn_direction = (if player w = CHR ''W'' then -1
                            else if player w = CHR ''B'' then 1
                            else indet_int w ''pawn_direction'');
          pawn_row = fst kp + pawn_direction
      in if pawn_row \<ge> 0 \<and> pawn_row < BOARD_SIZE then
           (if (snd kp > 0 \<and> (color = CHR ''W'' \<and> cell g pawn_row (snd kp - 1) = - PAWN)) \<or>
               (color = CHR ''B'' \<and> cell g pawn_row (snd kp - 1) = PAWN)
            then True
            else if (snd kp < BOARD_SIZE - 1 \<and>
                     (color = CHR ''W'' \<and> cell g pawn_row (snd kp + 1) = - PAWN)) \<or>
                    (color = CHR ''B'' \<and> cell g pawn_row (snd kp + 1) = PAWN)
            then True
            else False)
         else False)"

definition king_attack :: "chess_game \<Rightarrow> char \<Rightarrow> int \<times> int \<Rightarrow> bool" where
  "king_attack g color kp =
     list_ex (\<lambda>direction_x.
        list_ex (\<lambda>direction_y.
           let x = fst kp + direction_x; y = snd kp + direction_y
           in x \<ge> 0 \<and> x < BOARD_SIZE \<and> y \<ge> 0 \<and> y < BOARD_SIZE \<and>
              ((color = CHR ''W'' \<and> cell g x y = - KING) \<or> (color = CHR ''B'' \<and> cell g x y = KING)))
          [-1, 0, 1])
       [-1, 0, 1]"

definition king_check :: "module_state \<Rightarrow> chess_game \<Rightarrow> int \<Rightarrow> int \<Rightarrow> char \<Rightarrow> bool" where
  "king_check w g king_row king_col color =
     (let kp = king_position g color
      in if slider_attack g color kp then True
         else if knight_attack g color kp then True
         else if pawn_attack w g color kp then True
         else if king_attack g color kp then True
         else False)"

section \<open>perform_move\<close>

text \<open>
  The king coordinates a caller passes to \<^verbatim>\<open>king_check\<close>: the cache of the color, or the
  unassigned locals when the color is neither \<^verbatim>\<open>'W'\<close> nor \<^verbatim>\<open>'B'\<close>.
\<close>

definition cached_king :: "module_state \<Rightarrow> char \<Rightarrow> int \<times> int" where
  "cached_king w c =
     (if c = CHR ''W'' then (fst (white_king (game w)), snd (white_king (game w)))
      else if c = CHR ''B'' then (fst (black_king (game w)), snd (black_king (game w)))
      else (indet_int w ''king_row'', indet_int w ''king_col''))"

definition perform_move :: "module_state \<Rightarrow> int \<Rightarrow> int \<Rightarrow> int \<Rightarrow> int \<Rightarrow> int \<Rightarrow> module_state" where
  "perform_move w0 start_row start_col end_row end_col piece =
     (let w = gset w0 end_row end_col piece;
          w = gset w start_row start_col 0;
          opponent =
            (if (player w = CHR ''W'' \<or> cpu w = CHR ''W'') \<and> current_turn (game w) = 1
             then CHR ''B''
             else if (player w = CHR ''B'' \<or> cpu w = CHR ''B'') \<and> current_turn (game w) = -1
             then CHR ''W''
             else indet_char w ''opponent'');
          king = cached_king w opponent;
          w = (if king_check w (game w) (fst king) (snd king) opponent
               then w\<lparr>game := (game w)\<lparr>check := True\<rparr>\<rparr>
               else w\<lparr>game := (game w)\<lparr>check := False\<rparr>\<rparr>);
          w = (if \<bar>piece\<bar> = KING
               then (if player w = CHR ''W''
                     then w\<lparr>game := (game w)\<lparr>white_king := (end_row, end_col)\<rparr>\<rparr>
                     else w\<lparr>game := (game w)\<lparr>black_king := (end_row, end_col)\<rparr>\<rparr>)
               else w)
      in w\<lparr>game := (game w)\<lparr>current_turn := - current_turn (game w)\<rparr>\<rparr>)"

section \<open>legal_move\<close>

text \<open>
  The self-check block that every branch of \<^verbatim>\<open>legal_move\<close> and \<^verbatim>\<open>cpu_legal_move\<close>
  repeats word for word: the move is made on the global board, \<^verbatim>\<open>king_check\<close> is asked
  about the king of \<open>who\<close> (\<^verbatim>\<open>player[0]\<close> or \<^verbatim>\<open>cpu[0]\<close>), and the two squares are
  written back. The result is \<^verbatim>\<open>inCheck\<close> and the module state after the block.
\<close>

definition self_check ::
  "module_state \<Rightarrow> char \<Rightarrow> int \<Rightarrow> int \<Rightarrow> int \<Rightarrow> int \<Rightarrow> int \<Rightarrow> bool \<times> module_state" where
  "self_check w0 who start_row start_col end_row end_col piece =
     (let temp_piece = gcell w0 end_row end_col;
          w = gset w0 end_row end_col (gcell w0 start_row start_col);
          w = gset w start_row start_col EMPTY;
          inCheck =
            (if piece = KING then king_check w (game w) end_row end_col who
             else (let king = cached_king w who
                   in king_check w (game w) (fst king) (snd king) who));
          w = gset w start_row start_col (gcell w end_row end_col);
          w = gset w end_row end_col temp_piece
      in (inCheck, w))"

text \<open>
  \<^verbatim>\<open>if (beforeCheck) { ... if (inCheck) beforeCheck = false; } return beforeCheck;\<close>
\<close>

definition check_guard ::
  "module_state \<Rightarrow> char \<Rightarrow> int \<Rightarrow> int \<Rightarrow> int \<Rightarrow> int \<Rightarrow> int \<Rightarrow> bool \<Rightarrow> bool \<times> module_state" where
  "check_guard w who start_row start_col end_row end_col piece beforeCheck =
     (if beforeCheck
      then (let (inCheck, w') = self_check w who start_row start_col end_row end_col piece
            in (if inCheck then False else beforeCheck, w'))
      else (beforeCheck, w))"

text \<open>The promotion value of the human validator, from the directive that names it.\<close>

definition promotion_value :: "module_state \<Rightarrow> string \<Rightarrow> int" where
  "promotion_value w a =
     (let promotion = (if at a 1 = CHR ''W'' then 1
                       else if at a 1 = CHR ''B'' then -1
                       else indet_int w ''promotion'')
      in if at a 2 = CHR ''N'' then promotion * 2
         else if at a 2 = CHR ''B'' then promotion * 3
         else if at a 2 = CHR ''R'' then promotion * 4
         else if at a 2 = CHR ''Q'' then promotion * 5
         else promotion * 1)"

definition far_rank :: "char \<Rightarrow> int \<Rightarrow> bool" where
  "far_rank who end_row = ((end_row = 7 \<and> who = CHR ''W'') \<or> (end_row = 0 \<and> who = CHR ''B''))"

definition not_far_rank :: "char \<Rightarrow> int \<Rightarrow> bool" where
  "not_far_rank who end_row = ((end_row \<noteq> 7 \<and> who = CHR ''W'') \<or> (end_row \<noteq> 0 \<and> who = CHR ''B''))"

definition legal_rook ::
  "module_state \<Rightarrow> int \<Rightarrow> int \<Rightarrow> int \<Rightarrow> int \<Rightarrow> int \<Rightarrow> string \<Rightarrow> string \<Rightarrow> bool \<times> module_state" where
  "legal_rook w start_row start_col end_row end_col piece arr arr2 =
     (let beforeCheck =
            (if start_row \<noteq> end_row \<and> start_col \<noteq> end_col then False
             else if \<not> clear_path (game w) start_row start_col end_row end_col arr then False
             else if clear_path (game w) start_row start_col end_row end_col arr \<and>
                     (at arr 0 = CHR ''y'' \<or> at arr2 0 = CHR ''y'') then False
             else if clear_path (game w) start_row start_col end_row end_col arr \<and>
                     at arr 0 = CHR ''x'' \<and> at arr2 0 \<noteq> CHR ''y''
             then valid_opponent_piece w end_row end_col piece (drop 1 arr)
             else True)
      in check_guard w (player w) start_row start_col end_row end_col piece beforeCheck)"

definition legal_pawn ::
  "module_state \<Rightarrow> int \<Rightarrow> int \<Rightarrow> int \<Rightarrow> int \<Rightarrow> int \<Rightarrow> string \<Rightarrow> string \<Rightarrow> bool \<times> module_state" where
  "legal_pawn w start_row start_col end_row end_col piece arr arr2 =
     (let direction = (if piece > 0 then 1 else -1)
      in if start_col = end_col \<and> end_row = start_row + direction then
           (let isLegal = clear_path (game w) start_row start_col end_row end_col arr
            in if isLegal \<and> far_rank (player w) end_row \<and> at arr 0 = CHR ''y'' \<and>
                  at arr 2 \<noteq> CHR ''P'' \<and> at arr 2 \<noteq> CHR ''K'' \<and> at arr 1 = player w
               then check_guard (gset w start_row start_col (promotion_value w arr)) (player w)
                      start_row start_col end_row end_col piece isLegal
               else if isLegal \<and> far_rank (player w) end_row \<and> at arr 0 = CHR ''y'' \<and>
                       (at arr 1 \<noteq> player w \<or> at arr 2 = CHR ''P'' \<or> at arr 2 = CHR ''K'')
               then check_guard w (player w) start_row start_col end_row end_col piece False
               else if isLegal \<and> far_rank (player w) end_row \<and> at arr 0 \<noteq> CHR ''y''
               then check_guard w (player w) start_row start_col end_row end_col piece False
               else if isLegal \<and> not_far_rank (player w) end_row \<and>
                       (at arr 0 = CHR ''x'' \<or> at arr 0 = CHR ''y'' \<or> at arr2 0 = CHR ''y'')
               then check_guard w (player w) start_row start_col end_row end_col piece False
               else check_guard w (player w) start_row start_col end_row end_col piece isLegal)
         else if start_col = end_col \<and> end_row = start_row + 2 * direction \<and>
                 ((piece > 0 \<and> start_row = 1) \<or> (piece < 0 \<and> start_row = 6)) then
           (let isLegal = clear_path (game w) start_row start_col end_row end_col arr;
                isLegal = (if isLegal \<and>
                              (at arr 0 = CHR ''y'' \<or> at arr 0 = CHR ''x'' \<or> at arr2 0 = CHR ''y'')
                           then False else isLegal)
            in check_guard w (player w) start_row start_col end_row end_col piece isLegal)
         else if \<bar>start_col - end_col\<bar> = 1 \<and> end_row = start_row + direction \<and>
                 at arr 0 = CHR ''x'' then
           (let isLegal = valid_opponent_piece w (start_row + direction) end_col piece (drop 1 arr)
            in if isLegal \<and> far_rank (player w) end_row \<and> at arr2 0 = CHR ''y'' \<and>
                  at arr2 2 \<noteq> CHR ''P'' \<and> at arr2 2 \<noteq> CHR ''K'' \<and> at arr2 1 = player w
               then check_guard (gset w start_row start_col (promotion_value w arr2)) (player w)
                      start_row start_col end_row end_col piece isLegal
               else if isLegal \<and> far_rank (player w) end_row \<and> at arr2 0 = CHR ''y'' \<and>
                       (at arr2 1 \<noteq> player w \<or> at arr2 2 = CHR ''P'' \<or> at arr2 2 = CHR ''K'')
               then check_guard w (player w) start_row start_col end_row end_col piece False
               else if isLegal \<and> far_rank (player w) end_row \<and> at arr2 0 \<noteq> CHR ''y''
               then check_guard w (player w) start_row start_col end_row end_col piece False
               else if isLegal \<and> not_far_rank (player w) end_row \<and> at arr2 0 = CHR ''y''
               then check_guard w (player w) start_row start_col end_row end_col piece False
               else check_guard w (player w) start_row start_col end_row end_col piece isLegal)
         else (False, w))"

text \<open>
  The knight: \<^verbatim>\<open>beforeCheck\<close> starts as true; the first \<^verbatim>\<open>if\<close> of the source can only
  set it to true again, the chain after it decides.
\<close>

definition legal_knight ::
  "module_state \<Rightarrow> int \<Rightarrow> int \<Rightarrow> int \<Rightarrow> int \<Rightarrow> int \<Rightarrow> string \<Rightarrow> string \<Rightarrow> bool \<times> module_state" where
  "legal_knight w start_row start_col end_row end_col piece arr arr2 =
     (if (\<bar>start_row - end_row\<bar> = 2 \<and> \<bar>start_col - end_col\<bar> = 1) \<or>
         (\<bar>start_row - end_row\<bar> = 1 \<and> \<bar>start_col - end_col\<bar> = 2) then
        (let beforeCheck = True;
             beforeCheck =
               (if gcell w end_row end_col = EMPTY \<and>
                   (at arr 0 \<noteq> CHR ''x'' \<or> at arr2 0 \<noteq> CHR ''y'' \<or> at arr 0 \<noteq> CHR ''y'')
                then True else beforeCheck);
             beforeCheck =
               (if gcell w end_row end_col = EMPTY \<and>
                   (at arr 0 = CHR ''x'' \<or> at arr2 0 = CHR ''y'' \<or> at arr 0 = CHR ''y'')
                then False
                else if gcell w end_row end_col \<noteq> EMPTY \<and> at arr 0 = CHR ''x'' \<and>
                        at arr2 0 \<noteq> CHR ''y''
                then valid_opponent_piece w end_row end_col piece (drop 1 arr)
                else if gcell w end_row end_col \<noteq> EMPTY then False
                else beforeCheck)
         in check_guard w (player w) start_row start_col end_row end_col piece beforeCheck)
      else (False, w))"

definition legal_bishop ::
  "module_state \<Rightarrow> int \<Rightarrow> int \<Rightarrow> int \<Rightarrow> int \<Rightarrow> int \<Rightarrow> string \<Rightarrow> string \<Rightarrow> bool \<times> module_state" where
  "legal_bishop w start_row start_col end_row end_col piece arr arr2 =
     (let beforeCheck =
            (if \<bar>start_row - end_row\<bar> \<noteq> \<bar>start_col - end_col\<bar> then False
             else if \<not> clear_path (game w) start_row start_col end_row end_col arr then False
             else if clear_path (game w) start_row start_col end_row end_col arr \<and>
                     (at arr2 0 = CHR ''y'' \<or> at arr 0 = CHR ''y'') then False
             else if clear_path (game w) start_row start_col end_row end_col arr \<and>
                     at arr 0 = CHR ''x'' \<and> at arr2 0 \<noteq> CHR ''y''
             then valid_opponent_piece w end_row end_col piece (drop 1 arr)
             else True)
      in check_guard w (player w) start_row start_col end_row end_col piece beforeCheck)"

definition legal_queen ::
  "module_state \<Rightarrow> int \<Rightarrow> int \<Rightarrow> int \<Rightarrow> int \<Rightarrow> int \<Rightarrow> string \<Rightarrow> string \<Rightarrow> bool \<times> module_state" where
  "legal_queen w start_row start_col end_row end_col piece arr arr2 =
     (if (start_row = end_row \<or> start_col = end_col) \<or>
         \<bar>start_row - end_row\<bar> = \<bar>start_col - end_col\<bar> then
        (let beforeCheck =
               (if \<not> clear_path (game w) start_row start_col end_row end_col arr then False
                else if clear_path (game w) start_row start_col end_row end_col arr \<and>
                        (at arr2 0 = CHR ''y'' \<or> at arr 0 = CHR ''y'') then False
                else if clear_path (game w) start_row start_col end_row end_col arr \<and>
                        at arr 0 = CHR ''x'' \<and> at arr2 0 \<noteq> CHR ''y''
                then valid_opponent_piece w end_row end_col piece (drop 1 arr)
                else True)
         in check_guard w (player w) start_row start_col end_row end_col piece beforeCheck)
      else (False, w))"

text \<open>
  The king: a capture with a directive returns the verdict of \<^verbatim>\<open>valid_opponent_piece\<close>
  at once, without the self-check block.
\<close>

definition legal_king ::
  "module_state \<Rightarrow> int \<Rightarrow> int \<Rightarrow> int \<Rightarrow> int \<Rightarrow> int \<Rightarrow> string \<Rightarrow> string \<Rightarrow> bool \<times> module_state" where
  "legal_king w start_row start_col end_row end_col piece arr arr2 =
     (if \<bar>start_row - end_row\<bar> \<le> 1 \<and> \<bar>start_col - end_col\<bar> \<le> 1 then
        (if gcell w end_row end_col \<noteq> EMPTY \<and> at arr 0 = CHR ''x'' \<and> at arr2 0 \<noteq> CHR ''y''
         then (valid_opponent_piece w end_row end_col piece (drop 1 arr), w)
         else if gcell w end_row end_col \<noteq> EMPTY \<and>
                 (at arr 0 \<noteq> CHR ''x'' \<or> at arr2 0 = CHR ''y'')
         then (False, w)
         else check_guard w (player w) start_row start_col end_row end_col piece True)
      else (False, w))"

definition legal_move ::
  "module_state \<Rightarrow> int \<Rightarrow> int \<Rightarrow> int \<Rightarrow> int \<Rightarrow> int \<Rightarrow> string \<Rightarrow> string \<Rightarrow> bool \<times> module_state" where
  "legal_move w start_row start_col end_row end_col piece arr arr2 =
     (if \<bar>piece\<bar> = ROOK then legal_rook w start_row start_col end_row end_col piece arr arr2
      else if \<bar>piece\<bar> = PAWN then legal_pawn w start_row start_col end_row end_col piece arr arr2
      else if \<bar>piece\<bar> = KNIGHT then legal_knight w start_row start_col end_row end_col piece arr arr2
      else if \<bar>piece\<bar> = BISHOP then legal_bishop w start_row start_col end_row end_col piece arr arr2
      else if \<bar>piece\<bar> = QUEEN then legal_queen w start_row start_col end_row end_col piece arr arr2
      else if \<bar>piece\<bar> = KING then legal_king w start_row start_col end_row end_col piece arr arr2
      else (True, w))"

section \<open>cpu_clear_path\<close>

text \<open>
  The direction variables of \<^verbatim>\<open>cpu_clear_path\<close> are assigned only when the two
  coordinates differ.
\<close>

definition cpu_direction :: "module_state \<Rightarrow> string \<Rightarrow> int \<Rightarrow> int \<Rightarrow> int" where
  "cpu_direction w name a b =
     (if b \<noteq> a then (if b - a > 0 then 1 else if b - a < 0 then -1 else indet_int w name)
      else indet_int w name)"

text \<open>
  The three loops of \<^verbatim>\<open>cpu_clear_path\<close> run while \<^verbatim>\<open>i != end_row\<close> (and
  \<^verbatim>\<open>j != end_col\<close>), stepping by the direction towards the end square; they are entered
  with differing start and end coordinate, where the direction is +1 or -1 as
  \<open>path_direction\<close> gives it. \<open>True\<close> means the loop ended without \<^verbatim>\<open>return false\<close>.
  A loop variable that has passed its end coordinate would never meet it; the first test
  of each function makes it total there and is never taken from \<^verbatim>\<open>cpu_clear_path\<close>,
  which starts one step from the start square.
\<close>

function cpu_diagonal :: "chess_game \<Rightarrow> int \<Rightarrow> int \<Rightarrow> int \<Rightarrow> int \<Rightarrow> int \<Rightarrow> int \<Rightarrow> bool" where
  "cpu_diagonal g start_row start_col end_row end_col i j =
     (let row_direction = path_direction start_row end_row;
          col_direction = path_direction start_col end_col
      in if (end_row - i) * row_direction < 0 then False
         else if i \<noteq> end_row \<and> j \<noteq> end_col
         then (if cell g i j \<noteq> EMPTY then False
               else cpu_diagonal g start_row start_col end_row end_col
                      (i + row_direction) (j + col_direction))
         else True)"
  by pat_completeness auto
termination
  by (relation "measure (\<lambda>(g, start_row, start_col, end_row, end_col, i, j).
        nat ((end_row - i) * path_direction start_row end_row))")
     (auto simp: path_direction_def split: if_splits)

function cpu_vertical :: "chess_game \<Rightarrow> int \<Rightarrow> int \<Rightarrow> int \<Rightarrow> int \<Rightarrow> bool" where
  "cpu_vertical g start_row start_col end_row i =
     (let row_direction = path_direction start_row end_row
      in if (end_row - i) * row_direction < 0 then False
         else if i \<noteq> end_row
         then (if cell g i start_col \<noteq> EMPTY then False
               else cpu_vertical g start_row start_col end_row (i + row_direction))
         else True)"
  by pat_completeness auto
termination
  by (relation "measure (\<lambda>(g, start_row, start_col, end_row, i).
        nat ((end_row - i) * path_direction start_row end_row))")
     (auto simp: path_direction_def split: if_splits)

function cpu_horizontal :: "chess_game \<Rightarrow> int \<Rightarrow> int \<Rightarrow> int \<Rightarrow> int \<Rightarrow> bool" where
  "cpu_horizontal g start_row start_col end_col j =
     (let col_direction = path_direction start_col end_col
      in if (end_col - j) * col_direction < 0 then False
         else if j \<noteq> end_col
         then (if cell g start_row j \<noteq> EMPTY then False
               else cpu_horizontal g start_row start_col end_col (j + col_direction))
         else True)"
  by pat_completeness auto
termination
  by (relation "measure (\<lambda>(g, start_row, start_col, end_col, j).
        nat ((end_col - j) * path_direction start_col end_col))")
     (auto simp: path_direction_def split: if_splits)

declare cpu_diagonal.simps [simp del]
declare cpu_vertical.simps [simp del]
declare cpu_horizontal.simps [simp del]

text \<open>The test on the end square that follows each loop.\<close>

definition cpu_end_blocked :: "module_state \<Rightarrow> int \<Rightarrow> int \<Rightarrow> bool" where
  "cpu_end_blocked w end_row end_col =
     (gcell w end_row end_col \<noteq> EMPTY \<and>
      ((cpu w = CHR ''W'' \<and> gcell w end_row end_col \<ge> 0) \<or>
       (cpu w = CHR ''B'' \<and> gcell w end_row end_col \<le> 0)))"

definition cpu_clear_path :: "module_state \<Rightarrow> int \<Rightarrow> int \<Rightarrow> int \<Rightarrow> int \<Rightarrow> bool" where
  "cpu_clear_path w start_row start_col end_row end_col =
     (let row_direction = cpu_direction w ''row_direction'' start_row end_row;
          col_direction = cpu_direction w ''col_direction'' start_col end_col
      in if start_row \<noteq> end_row \<and> start_col \<noteq> end_col then
           (if \<not> cpu_diagonal (game w) start_row start_col end_row end_col
                   (start_row + row_direction) (start_col + col_direction) then False
            else if cpu_end_blocked w end_row end_col then False
            else True)
         else if start_row \<noteq> end_row then
           (if \<not> cpu_vertical (game w) start_row start_col end_row (start_row + row_direction)
            then False
            else if cpu_end_blocked w end_row end_col then False
            else True)
         else if start_col \<noteq> end_col then
           (if \<not> cpu_horizontal (game w) start_row start_col end_col (start_col + col_direction)
            then False
            else if cpu_end_blocked w end_row end_col then False
            else True)
         else True)"

section \<open>cpu_legal_move\<close>

text \<open>
  The promotion value of the opponent's validator. \<open>random_bytes\<close> is the value
  \<^verbatim>\<open>get_random_bytes\<close> stores into the \<^verbatim>\<open>unsigned int promotion\<close>; the arithmetic is
  that of 32-bit unsigned integers. The result is stored into an \<^verbatim>\<open>int\<close> square, which
  reads the 32 bits as a signed value.
\<close>

definition cpu_promotion :: "32 word \<Rightarrow> char \<Rightarrow> 32 word" where
  "cpu_promotion random_bytes c =
     (let promotion = random_bytes;
          promotion = (promotion mod 4) + 2;
          promotion = (if c = CHR ''W'' then 1
                       else if c = CHR ''B'' then -1
                       else promotion)
      in if promotion = 2 then promotion * 2
         else if promotion = 3 then promotion * 3
         else if promotion = 4 then promotion * 4
         else if promotion = 5 then promotion * 5
         else promotion)"

text \<open>
  The two statements that end every branch:
  \<^verbatim>\<open>if (cpu[0] == 'W' && game.board[end_row][end_col] > 0) beforeCheck = false;\<close> and its
  mirror image for \<^verbatim>\<open>'B'\<close>.
\<close>

definition cpu_own_piece :: "module_state \<Rightarrow> int \<Rightarrow> int \<Rightarrow> bool \<Rightarrow> bool" where
  "cpu_own_piece w end_row end_col beforeCheck =
     (let beforeCheck = (if cpu w = CHR ''W'' \<and> gcell w end_row end_col > 0
                         then False else beforeCheck);
          beforeCheck = (if cpu w = CHR ''B'' \<and> gcell w end_row end_col < 0
                         then False else beforeCheck)
      in beforeCheck)"

text \<open>The self-check block followed by these two statements.\<close>

definition cpu_finish ::
  "module_state \<Rightarrow> int \<Rightarrow> int \<Rightarrow> int \<Rightarrow> int \<Rightarrow> int \<Rightarrow> bool \<Rightarrow> bool \<times> module_state" where
  "cpu_finish w start_row start_col end_row end_col piece beforeCheck =
     (let (beforeCheck, w') =
            check_guard w (cpu w) start_row start_col end_row end_col piece beforeCheck
      in (cpu_own_piece w' end_row end_col beforeCheck, w'))"

definition cpu_promote ::
  "module_state \<Rightarrow> 32 word \<Rightarrow> int \<Rightarrow> int \<Rightarrow> int \<Rightarrow> bool \<Rightarrow> module_state" where
  "cpu_promote w random_bytes start_row start_col end_row beforeCheck =
     (if beforeCheck \<and> far_rank (cpu w) end_row
      then gset w start_row start_col (sint (cpu_promotion random_bytes (cpu w)))
      else w)"

definition cpu_rook ::
  "module_state \<Rightarrow> int \<Rightarrow> int \<Rightarrow> int \<Rightarrow> int \<Rightarrow> int \<Rightarrow> bool \<times> module_state" where
  "cpu_rook w start_row start_col end_row end_col piece =
     (let beforeCheck = True;
          beforeCheck = (if start_row \<noteq> end_row \<and> start_col \<noteq> end_col
                         then False else beforeCheck);
          beforeCheck = (if \<not> cpu_clear_path w start_row start_col end_row end_col
                         then False else beforeCheck)
      in cpu_finish w start_row start_col end_row end_col piece beforeCheck)"

definition cpu_pawn ::
  "module_state \<Rightarrow> 32 word \<Rightarrow> int \<Rightarrow> int \<Rightarrow> int \<Rightarrow> int \<Rightarrow> int \<Rightarrow> bool \<times> module_state" where
  "cpu_pawn w random_bytes start_row start_col end_row end_col piece =
     (let direction = (if piece > 0 then 1
                       else if piece < 0 then -1
                       else indet_int w ''direction'')
      in if start_col = end_col \<and> end_row = start_row + direction then
           (let beforeCheck = cpu_clear_path w start_row start_col end_row end_col;
                w = cpu_promote w random_bytes start_row start_col end_row beforeCheck
            in cpu_finish w start_row start_col end_row end_col piece beforeCheck)
         else if start_col = end_col \<and> end_row = start_row + 2 * direction \<and>
                 ((piece > 0 \<and> start_row = 1) \<or> (piece < 0 \<and> start_row = 6)) then
           (let beforeCheck = cpu_clear_path w start_row start_col end_row end_col
            in cpu_finish w start_row start_col end_row end_col piece beforeCheck)
         else if \<bar>start_col - end_col\<bar> = 1 \<and> end_row = start_row + direction then
           (let beforeCheck = True;
                beforeCheck =
                  (if cpu w = CHR ''W''
                   then (if gcell w (start_row + direction) end_col \<ge> 0 then False else True)
                   else beforeCheck);
                beforeCheck =
                  (if cpu w = CHR ''B''
                   then (if gcell w (start_row + direction) end_col \<le> 0 then False else True)
                   else beforeCheck);
                w = cpu_promote w random_bytes start_row start_col end_row beforeCheck
            in cpu_finish w start_row start_col end_row end_col piece beforeCheck)
         else (False, w))"

definition cpu_knight ::
  "module_state \<Rightarrow> int \<Rightarrow> int \<Rightarrow> int \<Rightarrow> int \<Rightarrow> int \<Rightarrow> bool \<times> module_state" where
  "cpu_knight w start_row start_col end_row end_col piece =
     (let beforeCheck =
            (if (\<bar>start_row - end_row\<bar> = 2 \<and> \<bar>start_col - end_col\<bar> = 1) \<or>
                (\<bar>start_row - end_row\<bar> = 1 \<and> \<bar>start_col - end_col\<bar> = 2)
             then True else False)
      in cpu_finish w start_row start_col end_row end_col piece beforeCheck)"

definition cpu_bishop ::
  "module_state \<Rightarrow> int \<Rightarrow> int \<Rightarrow> int \<Rightarrow> int \<Rightarrow> int \<Rightarrow> bool \<times> module_state" where
  "cpu_bishop w start_row start_col end_row end_col piece =
     (let beforeCheck = True;
          beforeCheck = (if \<bar>start_row - end_row\<bar> \<noteq> \<bar>start_col - end_col\<bar>
                         then False else beforeCheck);
          beforeCheck = (if \<not> cpu_clear_path w start_row start_col end_row end_col
                         then False else beforeCheck)
      in cpu_finish w start_row start_col end_row end_col piece beforeCheck)"

definition cpu_queen ::
  "module_state \<Rightarrow> int \<Rightarrow> int \<Rightarrow> int \<Rightarrow> int \<Rightarrow> int \<Rightarrow> bool \<times> module_state" where
  "cpu_queen w start_row start_col end_row end_col piece =
     (if (start_row = end_row \<or> start_col = end_col) \<or>
         \<bar>start_row - end_row\<bar> = \<bar>start_col - end_col\<bar> then
        (let beforeCheck = (if \<not> cpu_clear_path w start_row start_col end_row end_col
                            then False else True)
         in cpu_finish w start_row start_col end_row end_col piece beforeCheck)
      else (False, w))"

definition cpu_king ::
  "module_state \<Rightarrow> int \<Rightarrow> int \<Rightarrow> int \<Rightarrow> int \<Rightarrow> int \<Rightarrow> bool \<times> module_state" where
  "cpu_king w start_row start_col end_row end_col piece =
     (if \<bar>start_row - end_row\<bar> \<le> 1 \<and> \<bar>start_col - end_col\<bar> \<le> 1 then
        (let beforeCheck =
               (if gcell w end_row end_col \<noteq> EMPTY \<and>
                   ((cpu w = CHR ''W'' \<and> gcell w end_row end_col > 0) \<or>
                    (cpu w = CHR ''B'' \<and> gcell w end_row end_col < 0))
                then False else True)
         in cpu_finish w start_row start_col end_row end_col piece beforeCheck)
      else (False, w))"

text \<open>
  \<^verbatim>\<open>cpu_legal_move\<close>; \<open>random_bytes\<close> is what \<^verbatim>\<open>get_random_bytes\<close> delivers if the call
  reaches it (at most once per call).
\<close>

definition cpu_legal_move ::
  "module_state \<Rightarrow> 32 word \<Rightarrow> int \<Rightarrow> int \<Rightarrow> int \<Rightarrow> int \<Rightarrow> int \<Rightarrow> bool \<times> module_state" where
  "cpu_legal_move w random_bytes start_row start_col end_row end_col piece =
     (if \<bar>piece\<bar> = ROOK then cpu_rook w start_row start_col end_row end_col piece
      else if \<bar>piece\<bar> = PAWN
      then cpu_pawn w random_bytes start_row start_col end_row end_col piece
      else if \<bar>piece\<bar> = KNIGHT then cpu_knight w start_row start_col end_row end_col piece
      else if \<bar>piece\<bar> = BISHOP then cpu_bishop w start_row start_col end_row end_col piece
      else if \<bar>piece\<bar> = QUEEN then cpu_queen w start_row start_col end_row end_col piece
      else if \<bar>piece\<bar> = KING then cpu_king w start_row start_col end_row end_col piece
      else (True, w))"

section \<open>Pointers to a game\<close>

text \<open>
  \<^verbatim>\<open>cpu_move\<close>, \<^verbatim>\<open>is_checkmate\<close> and \<^verbatim>\<open>cpu_checkmate\<close> take a
  \<^verbatim>\<open>struct chess_game *game\<close>, while the validators and \<^verbatim>\<open>perform_move\<close> they call
  work on the global \<^verbatim>\<open>game\<close>. The callers pass \<^verbatim>\<open>&game\<close> (the global itself, to
  \<^verbatim>\<open>cpu_move\<close> and \<^verbatim>\<open>cpu_checkmate\<close>) or the address of a local copy (\<^verbatim>\<open>&temp\<close>, to
  \<^verbatim>\<open>is_checkmate\<close>). A pointer is therefore either the global or a copy with its
  content; no function writes through it.
\<close>

datatype game_ptr = Global_game | Local_copy chess_game

definition deref :: "module_state \<Rightarrow> game_ptr \<Rightarrow> chess_game" where
  "deref w p = (case p of Global_game \<Rightarrow> game w | Local_copy g \<Rightarrow> g)"

text \<open>The squares of the board in the order two nested \<^verbatim>\<open>for\<close> loops visit them.\<close>

definition all_squares :: "(int \<times> int) list" where
  "all_squares = List.product [0..7] [0..7]"

section \<open>cpu_move\<close>

text \<open>
  An entry of \<^verbatim>\<open>legal_moves\<close> (\<^verbatim>\<open>struct cpu_move\<close>): start row, start column, end row,
  end column. The array has \<^verbatim>\<open>BOARD_SIZE * BOARD_SIZE\<close> entries; \<^verbatim>\<open>counter\<close> is the
  length of the list.

  \<open>draws\<close> gives, for each call of \<^verbatim>\<open>cpu_legal_move\<close> of the scan (named by its four
  coordinates), the value \<^verbatim>\<open>get_random_bytes\<close> delivers there.
\<close>

type_synonym move_entry = "int \<times> int \<times> int \<times> int"

definition cpu_try_end ::
  "(move_entry \<Rightarrow> 32 word) \<Rightarrow> int \<Rightarrow> int \<Rightarrow> int \<Rightarrow> int \<times> int \<Rightarrow>
   move_entry list \<times> module_state \<Rightarrow> move_entry list \<times> module_state" where
  "cpu_try_end draws i j piece kl s =
     (case kl of (k, l) \<Rightarrow>
      case s of (legal_moves, w) \<Rightarrow>
        (let (ok, w') = cpu_legal_move w (draws (i, j, k, l)) i j k l piece
         in if ok
            then (if length legal_moves < 64
                  then (legal_moves @ [(i, j, k, l)], w')
                  else (legal_moves, w'))
            else (legal_moves, w')))"

definition cpu_try_start ::
  "(move_entry \<Rightarrow> 32 word) \<Rightarrow> game_ptr \<Rightarrow> int \<times> int \<Rightarrow>
   move_entry list \<times> module_state \<Rightarrow> move_entry list \<times> module_state" where
  "cpu_try_start draws p ij s =
     (case ij of (i, j) \<Rightarrow>
      case s of (legal_moves, w) \<Rightarrow>
        (let piece = cell (deref w p) i j
         in if (cpu w = CHR ''B'' \<and> piece < 0) \<or> (cpu w = CHR ''W'' \<and> piece > 0)
            then fold (cpu_try_end draws i j piece) all_squares (legal_moves, w)
            else (legal_moves, w)))"

definition cpu_scan ::
  "module_state \<Rightarrow> (move_entry \<Rightarrow> 32 word) \<Rightarrow> game_ptr \<Rightarrow> move_entry list \<times> module_state" where
  "cpu_scan w draws p = fold (cpu_try_start draws p) all_squares ([], w)"

text \<open>\<open>rand_val\<close> is the value \<^verbatim>\<open>get_random_bytes\<close> delivers for the choice of the move.\<close>

definition cpu_move ::
  "module_state \<Rightarrow> (move_entry \<Rightarrow> 32 word) \<Rightarrow> 32 word \<Rightarrow> game_ptr \<Rightarrow> module_state" where
  "cpu_move w0 draws rand_val p =
     (let (legal_moves, w) = cpu_scan w0 draws p;
          counter = length legal_moves
      in if counter > 0
         then (case legal_moves ! (unat rand_val mod counter) of
                 (start_row, start_col, end_row, end_col) \<Rightarrow>
                   perform_move w start_row start_col end_row end_col
                     (cell (deref w p) start_row start_col))
         else w)"

section \<open>is_checkmate and cpu_checkmate\<close>

text \<open>
  The color and the king coordinates both detectors compute first. The coordinates are
  passed to \<^verbatim>\<open>king_check\<close>.
\<close>

definition turn_color :: "module_state \<Rightarrow> chess_game \<Rightarrow> char" where
  "turn_color w g =
     (if current_turn g > 0 then CHR ''W''
      else if current_turn g < 0 then CHR ''B''
      else indet_char w ''color'')"

definition mate_king :: "module_state \<Rightarrow> chess_game \<Rightarrow> char \<Rightarrow> int \<times> int" where
  "mate_king w g color =
     (if color = CHR ''W'' then (snd (white_king g), fst (white_king g))
      else if color = CHR ''B'' then (snd (black_king g), fst (black_king g))
      else (indet_int w ''king_row'', indet_int w ''king_col''))"

text \<open>
  The two inner loops of \<^verbatim>\<open>is_checkmate\<close> over the end squares still to visit. The first
  component of the result says whether the loop left the function by \<^verbatim>\<open>return false\<close>.
\<close>

fun mate_ends ::
  "module_state \<Rightarrow> game_ptr \<Rightarrow> string \<Rightarrow> string \<Rightarrow> char \<Rightarrow> int \<times> int \<Rightarrow> int \<Rightarrow> int \<Rightarrow> int \<Rightarrow>
   (int \<times> int) list \<Rightarrow> bool \<times> module_state" where
  "mate_ends w p arr arr2 color king start_row start_col piece [] = (False, w)"
| "mate_ends w p arr arr2 color king start_row start_col piece ((end_row, end_col) # rest) =
     (let (ok, w1) = legal_move w start_row start_col end_row end_col piece arr arr2
      in if ok
         then (let temp_game = deref w1 p;
                   w2 = perform_move w1 start_row start_col end_row end_col piece
               in if \<not> king_check w2 temp_game (fst king) (snd king) color
                  then (True, w2)
                  else mate_ends w2 p arr arr2 color king start_row start_col piece rest)
         else mate_ends w1 p arr arr2 color king start_row start_col piece rest)"

text \<open>The two outer loops over the start squares still to visit.\<close>

fun mate_starts ::
  "module_state \<Rightarrow> game_ptr \<Rightarrow> string \<Rightarrow> string \<Rightarrow> char \<Rightarrow> int \<times> int \<Rightarrow>
   (int \<times> int) list \<Rightarrow> bool \<times> module_state" where
  "mate_starts w p arr arr2 color king [] = (False, w)"
| "mate_starts w p arr arr2 color king ((start_row, start_col) # rest) =
     (let piece = cell (deref w p) start_row start_col
      in if (color = CHR ''W'' \<and> piece > 0) \<or> (color = CHR ''B'' \<and> piece < 0)
         then (let (returned, w1) =
                     mate_ends w p arr arr2 color king start_row start_col piece all_squares
               in if returned then (True, w1)
                  else mate_starts w1 p arr arr2 color king rest)
         else mate_starts w p arr arr2 color king rest)"

definition is_checkmate ::
  "module_state \<Rightarrow> game_ptr \<Rightarrow> string \<Rightarrow> string \<Rightarrow> bool \<times> module_state" where
  "is_checkmate w p arr arr2 =
     (let color = turn_color w (deref w p);
          king = mate_king w (deref w p) color
      in if \<not> king_check w (deref w p) (fst king) (snd king) color then (False, w)
         else (let (returned, w1) = mate_starts w p arr arr2 color king all_squares
               in if returned then (False, w1) else (True, w1)))"

text \<open>The same loops in \<^verbatim>\<open>cpu_checkmate\<close>, with \<^verbatim>\<open>cpu_legal_move\<close> as the validator.\<close>

fun cpu_mate_ends ::
  "module_state \<Rightarrow> (move_entry \<Rightarrow> 32 word) \<Rightarrow> game_ptr \<Rightarrow> char \<Rightarrow> int \<times> int \<Rightarrow> int \<Rightarrow> int \<Rightarrow> int \<Rightarrow>
   (int \<times> int) list \<Rightarrow> bool \<times> module_state" where
  "cpu_mate_ends w draws p color king start_row start_col piece [] = (False, w)"
| "cpu_mate_ends w draws p color king start_row start_col piece ((end_row, end_col) # rest) =
     (let (ok, w1) = cpu_legal_move w (draws (start_row, start_col, end_row, end_col))
                       start_row start_col end_row end_col piece
      in if ok
         then (let temp_game = deref w1 p;
                   w2 = perform_move w1 start_row start_col end_row end_col piece
               in if \<not> king_check w2 temp_game (fst king) (snd king) color
                  then (True, w2)
                  else cpu_mate_ends w2 draws p color king start_row start_col piece rest)
         else cpu_mate_ends w1 draws p color king start_row start_col piece rest)"

fun cpu_mate_starts ::
  "module_state \<Rightarrow> (move_entry \<Rightarrow> 32 word) \<Rightarrow> game_ptr \<Rightarrow> char \<Rightarrow> int \<times> int \<Rightarrow>
   (int \<times> int) list \<Rightarrow> bool \<times> module_state" where
  "cpu_mate_starts w draws p color king [] = (False, w)"
| "cpu_mate_starts w draws p color king ((start_row, start_col) # rest) =
     (let piece = cell (deref w p) start_row start_col
      in if (color = CHR ''W'' \<and> piece > 0) \<or> (color = CHR ''B'' \<and> piece < 0)
         then (let (returned, w1) =
                     cpu_mate_ends w draws p color king start_row start_col piece all_squares
               in if returned then (True, w1)
                  else cpu_mate_starts w1 draws p color king rest)
         else cpu_mate_starts w draws p color king rest)"

definition cpu_checkmate ::
  "module_state \<Rightarrow> (move_entry \<Rightarrow> 32 word) \<Rightarrow> game_ptr \<Rightarrow> bool \<times> module_state" where
  "cpu_checkmate w draws p =
     (let color = turn_color w (deref w p);
          king = mate_king w (deref w p) color
      in if \<not> king_check w (deref w p) (fst king) (snd king) color then (False, w)
         else (let (returned, w1) = cpu_mate_starts w draws p color king all_squares
               in if returned then (False, w1) else (True, w1)))"

section \<open>Concrete positions\<close>

text \<open>
  Positions used to run the functions above. \<open>position ps\<close> is the empty board with the
  pieces \<open>ps\<close>, each given as (row, column, value); \<open>state_of\<close> builds the module state of
  a running game around a board, with the human's color, the opponent's color, the two
  king caches, the turn and the check flag.
\<close>

definition position :: "(int \<times> int \<times> int) list \<Rightarrow> int \<Rightarrow> int" where
  "position ps = fold (\<lambda>(r, c, v) b. b(8 * r + c := v)) ps (\<lambda>a. 0)"

definition state_of ::
  "char \<Rightarrow> char \<Rightarrow> (int \<Rightarrow> int) \<Rightarrow> int \<times> int \<Rightarrow> int \<times> int \<Rightarrow> int \<Rightarrow> bool \<Rightarrow>
   module_state" where
  "state_of human opponent b wk bk turn in_check =
     \<lparr>game = \<lparr>board = b, white_king = wk, black_king = bk, current_turn = turn,
              check = in_check\<rparr>,
      player = human, cpu = opponent, game_init = True, checkmate = False,
      indet_int = (\<lambda>n. 0), indet_char = (\<lambda>n. CHR 0x00)\<rparr>"


section \<open>The path rule of the specification\<close>

text \<open>
  The notions the specification uses to describe \<^verbatim>\<open>clear_path\<close>: a start and an end
  square lie on a line when exactly one of same row, same column and equal absolute
  deltas holds; the squares strictly between them are those at the steps 1 to distance - 1
  from the start, in the direction of travel; the destination rule accepts an occupied end
  square only with the capture directive \<^verbatim>\<open>x\<close>.
\<close>


definition on_line :: "int \<Rightarrow> int \<Rightarrow> int \<Rightarrow> int \<Rightarrow> bool" where
  "on_line start_row start_col end_row end_col =
     ((start_row = end_row \<and> start_col \<noteq> end_col) \<or>
      (start_col = end_col \<and> start_row \<noteq> end_row) \<or>
      (start_row \<noteq> end_row \<and> start_col \<noteq> end_col \<and>
       \<bar>end_row - start_row\<bar> = \<bar>end_col - start_col\<bar>))"

definition distance :: "int \<Rightarrow> int \<Rightarrow> int \<Rightarrow> int \<Rightarrow> int" where
  "distance start_row start_col end_row end_col =
     max \<bar>end_row - start_row\<bar> \<bar>end_col - start_col\<bar>"

definition between :: "int \<Rightarrow> int \<Rightarrow> int \<Rightarrow> int \<Rightarrow> (int \<times> int) list" where
  "between start_row start_col end_row end_col =
     map (\<lambda>k. (start_row + k * sgn (end_row - start_row),
                start_col + k * sgn (end_col - start_col)))
       [1 .. distance start_row start_col end_row end_col - 1]"

definition occupied_between :: "chess_game \<Rightarrow> int \<Rightarrow> int \<Rightarrow> int \<Rightarrow> int \<Rightarrow> bool" where
  "occupied_between g start_row start_col end_row end_col =
     list_ex (\<lambda>(r, c). cell g r c \<noteq> EMPTY) (between start_row start_col end_row end_col)"

definition destination_rule :: "chess_game \<Rightarrow> int \<Rightarrow> int \<Rightarrow> string \<Rightarrow> bool" where
  "destination_rule g end_row end_col arr =
     (if cell g end_row end_col \<noteq> EMPTY then at arr 0 = CHR ''x'' else True)"


text \<open>
  White rook a1, White knight b1, a Black pawn on b2; the human plays White.
\<close>

definition rook_behind_knight :: module_state where
  "rook_behind_knight =
     state_of (CHR ''W'') (CHR ''B'')
       (position [(0, 0, ROOK), (0, 1, KNIGHT), (1, 1, - PAWN), (0, 4, KING), (7, 4, - KING)])
       (4, 0) (4, 7) 1 False"

section \<open>The candidate set of cpu_move\<close>

text \<open>
  The pairs the specification speaks of: a (start, end) pair is a candidate when the start
  square holds a piece of the opponent's color (the test \<^verbatim>\<open>cpu_move\<close> makes) and
  \<^verbatim>\<open>cpu_legal_move\<close> accepts the move of that piece; the random draw inside
  \<^verbatim>\<open>cpu_legal_move\<close> has no influence, so it is taken as 0. \<open>all_moves\<close> lists all pairs
  in the order the four nested loops visit them.
\<close>

definition cpu_owns :: "module_state \<Rightarrow> int \<Rightarrow> bool" where
  "cpu_owns w piece = ((cpu w = CHR ''B'' \<and> piece < 0) \<or> (cpu w = CHR ''W'' \<and> piece > 0))"

definition cpu_candidate :: "module_state \<Rightarrow> move_entry \<Rightarrow> bool" where
  "cpu_candidate w m =
     (case m of (i, j, k, l) \<Rightarrow>
        cpu_owns w (gcell w i j) \<and> fst (cpu_legal_move w 0 i j k l (gcell w i j)))"

definition moves_from :: "int \<times> int \<Rightarrow> move_entry list" where
  "moves_from ij = (case ij of (i, j) \<Rightarrow> map (\<lambda>(k, l). (i, j, k, l)) all_squares)"

definition all_moves :: "move_entry list" where
  "all_moves = concat (map moves_from all_squares)"

definition cpu_candidates :: "module_state \<Rightarrow> move_entry list" where
  "cpu_candidates w = filter (cpu_candidate w) all_moves"

text \<open>The candidates that start from one square.\<close>

definition candidates_from :: "module_state \<Rightarrow> int \<times> int \<Rightarrow> move_entry list" where
  "candidates_from w ij =
     (case ij of (i, j) \<Rightarrow>
        if cpu_owns w (gcell w i j) then filter (cpu_candidate w) (moves_from (i, j)) else [])"

text \<open>Appending to the array \<^verbatim>\<open>legal_moves\<close>, which takes no entry beyond its 64th.\<close>

definition capped :: "move_entry list \<Rightarrow> move_entry list \<Rightarrow> move_entry list" where
  "capped acc xs = acc @ take (64 - length acc) xs"

text \<open>A source of random values that always delivers 0.\<close>

definition zero_draws :: "move_entry \<Rightarrow> 32 word" where "zero_draws m = 0"

text \<open>
  The opponent plays White and is to move. Its king stands on a1, attacked by the Black
  rook on a8 along the file and by the Black bishop on h8 along the diagonal.
\<close>

definition cornered :: module_state where
  "cornered = state_of (CHR ''B'') (CHR ''W'')
      (position [(0, 0, KING), (7, 0, - ROOK), (7, 7, - BISHOP), (7, 4, - KING)])
      (0, 0) (4, 7) 1 True"


section \<open>The opponent's promotion\<close>

lemma cpu_promotion_W: "cpu_promotion r (CHR ''W'') = 1"
  by (simp add: cpu_promotion_def)

lemma cpu_promotion_B: "cpu_promotion r (CHR ''B'') = -1"
  by (simp add: cpu_promotion_def)

lemma far_rank_cases: "far_rank c e \<Longrightarrow> c = CHR ''W'' \<or> c = CHR ''B''"
  by (auto simp: far_rank_def)

lemma cpu_promote_fixed:
  "cpu_promote w r sr sc er bc = cpu_promote w 0 sr sc er bc"
  by (auto simp: cpu_promote_def cpu_promotion_W cpu_promotion_B dest!: far_rank_cases)

text \<open>The verdict and the effect of \<^verbatim>\<open>cpu_legal_move\<close> do not depend on the random draw.\<close>

lemma cpu_legal_move_draw:
  "cpu_legal_move w r sr sc er ec piece = cpu_legal_move w 0 sr sc er ec piece"
  by (simp only: cpu_legal_move_def cpu_pawn_def cpu_promote_fixed[of _ r])



section \<open>The coordinates passed to king_check\<close>

text \<open>
  C10. \<^verbatim>\<open>king_check\<close> never reads its parameters \<^verbatim>\<open>king_row\<close> and \<^verbatim>\<open>king_col\<close>: the
  king's square is taken from the cache of the game it is given. Any two coordinate
  pairs give the same answer.
\<close>

theorem king_check_ignores_coordinates:
  "king_check w g r1 c1 color = king_check w g r2 c2 color"
  by (simp add: king_check_def)

section \<open>clear_path against the path rule\<close>

lemma path_direction_sgn: "a \<noteq> b \<Longrightarrow> path_direction a b = sgn (b - a)"
  by (auto simp: path_direction_def sgn_if)

lemma path_direction_cases: "path_direction a b = 1 \<or> path_direction a b = -1"
  by (simp add: path_direction_def)

lemma ex_le_Suc:
  assumes "\<not> P (Suc t)"
  shows "(\<exists>m. 0 < m \<and> m \<le> Suc t \<and> P m) = (\<exists>m. 0 < m \<and> m \<le> t \<and> P m)"
  using assms by (auto simp: le_Suc_eq)

lemma clear_vertical_last:
  "clear_vertical g sr sc er arr er = destination_rule g er sc arr"
proof -
  have past: "clear_vertical g sr sc er arr (er + path_direction sr er) = True"
    using path_direction_cases[of sr er] by (subst clear_vertical.simps) auto
  show ?thesis
    using path_direction_cases[of sr er]
    by (subst clear_vertical.simps) (auto simp: past destination_rule_def)
qed

lemma clear_vertical_walk:
  assumes pd: "path_direction sr er = d"
  shows "clear_vertical g sr sc er arr (er - int t * d) =
     (if \<exists>m. 0 < m \<and> m \<le> t \<and> cell g (er - int m * d) sc \<noteq> 0 then False
      else destination_rule g er sc arr)"
proof (induction t)
  case 0
  show ?case by (simp add: clear_vertical_last)
next
  case (Suc t)
  have d1: "d = 1 \<or> d = -1" using path_direction_cases[of sr er] by (simp add: pd)
  let ?i = "er - int (Suc t) * d"
  have step: "?i + d = er - int t * d" by (simp add: algebra_simps)
  have ne: "?i \<noteq> er" using d1 by auto
  have unf: "clear_vertical g sr sc er arr ?i =
               (if cell g ?i sc \<noteq> 0 then False else clear_vertical g sr sc er arr (?i + d))"
    using ne d1 by (subst clear_vertical.simps) (auto simp: pd Let_def)
  show ?case
  proof (cases "cell g ?i sc = 0")
    case True
    then show ?thesis
      using ex_le_Suc[of "\<lambda>m. cell g (er - int m * d) sc \<noteq> 0" t] Suc.IH
      by (simp only: unf step) simp
  next
    case False
    then have "\<exists>m. 0 < m \<and> m \<le> Suc t \<and> cell g (er - int m * d) sc \<noteq> 0" by blast
    then show ?thesis using False by (simp only: unf) simp
  qed
qed

lemma clear_horizontal_last:
  "clear_horizontal g sr sc ec arr ec = destination_rule g sr ec arr"
proof -
  have past: "clear_horizontal g sr sc ec arr (ec + path_direction sc ec) = True"
    using path_direction_cases[of sc ec] by (subst clear_horizontal.simps) auto
  show ?thesis
    using path_direction_cases[of sc ec]
    by (subst clear_horizontal.simps) (auto simp: past destination_rule_def)
qed

lemma clear_horizontal_walk:
  assumes pd: "path_direction sc ec = d"
  shows "clear_horizontal g sr sc ec arr (ec - int t * d) =
     (if \<exists>m. 0 < m \<and> m \<le> t \<and> cell g sr (ec - int m * d) \<noteq> 0 then False
      else destination_rule g sr ec arr)"
proof (induction t)
  case 0
  show ?case by (simp add: clear_horizontal_last)
next
  case (Suc t)
  have d1: "d = 1 \<or> d = -1" using path_direction_cases[of sc ec] by (simp add: pd)
  let ?j = "ec - int (Suc t) * d"
  have step: "?j + d = ec - int t * d" by (simp add: algebra_simps)
  have ne: "?j \<noteq> ec" using d1 by auto
  have unf: "clear_horizontal g sr sc ec arr ?j =
               (if cell g sr ?j \<noteq> 0 then False else clear_horizontal g sr sc ec arr (?j + d))"
    using ne d1 by (subst clear_horizontal.simps) (auto simp: pd Let_def)
  show ?case
  proof (cases "cell g sr ?j = 0")
    case True
    then show ?thesis
      using ex_le_Suc[of "\<lambda>m. cell g sr (ec - int m * d) \<noteq> 0" t] Suc.IH
      by (simp only: unf step) simp
  next
    case False
    then have "\<exists>m. 0 < m \<and> m \<le> Suc t \<and> cell g sr (ec - int m * d) \<noteq> 0" by blast
    then show ?thesis using False by (simp only: unf) simp
  qed
qed

lemma clear_diagonal_last:
  "clear_diagonal g sr sc er ec arr er ec = destination_rule g er ec arr"
proof -
  have past: "clear_diagonal g sr sc er ec arr (er + path_direction sr er) (ec + path_direction sc ec) = True"
    using path_direction_cases[of sr er] by (subst clear_diagonal.simps) auto
  show ?thesis
    using path_direction_cases[of sr er] path_direction_cases[of sc ec]
    by (subst clear_diagonal.simps) (auto simp: past destination_rule_def)
qed

lemma clear_diagonal_walk:
  assumes pd: "path_direction sr er = d" and pe: "path_direction sc ec = e"
  shows "clear_diagonal g sr sc er ec arr (er - int t * d) (ec - int t * e) =
     (if \<exists>m. 0 < m \<and> m \<le> t \<and> cell g (er - int m * d) (ec - int m * e) \<noteq> 0
      then False
      else destination_rule g er ec arr)"
proof (induction t)
  case 0
  show ?case by (simp add: clear_diagonal_last)
next
  case (Suc t)
  have d1: "d = 1 \<or> d = -1" using path_direction_cases[of sr er] by (simp add: pd)
  have e1: "e = 1 \<or> e = -1" using path_direction_cases[of sc ec] by (simp add: pe)
  let ?i = "er - int (Suc t) * d"
  let ?j = "ec - int (Suc t) * e"
  have step: "?i + d = er - int t * d" "?j + e = ec - int t * e" by (simp_all add: algebra_simps)
  have ne: "?i \<noteq> er" using d1 by auto
  have unf: "clear_diagonal g sr sc er ec arr ?i ?j =
               (if cell g ?i ?j \<noteq> 0 then False else clear_diagonal g sr sc er ec arr (?i + d) (?j + e))"
    using ne d1 e1
    by (subst clear_diagonal.simps) (auto simp: pd pe Let_def)
  show ?case
  proof (cases "cell g ?i ?j = 0")
    case True
    then show ?thesis
      using ex_le_Suc[of "\<lambda>m. cell g (er - int m * d) (ec - int m * e) \<noteq> 0" t] Suc.IH
      by (simp only: unf step) simp
  next
    case False
    then have "\<exists>m. 0 < m \<and> m \<le> Suc t \<and> cell g (er - int m * d) (ec - int m * e) \<noteq> 0" by blast
    then show ?thesis using False by (simp only: unf) simp
  qed
qed


lemma reindex:
  fixes n :: int
  shows "(\<exists>m::nat. 0 < m \<and> m \<le> nat (n - 1) \<and> P (n - int m)) = (\<exists>k::int. 1 \<le> k \<and> k \<le> n - 1 \<and> P k)"
proof
  assume "\<exists>m::nat. 0 < m \<and> m \<le> nat (n - 1) \<and> P (n - int m)"
  then obtain m :: nat where m: "0 < m" "m \<le> nat (n - 1)" "P (n - int m)" by blast
  then have "1 \<le> n - int m \<and> n - int m \<le> n - 1" by auto
  with m show "\<exists>k::int. 1 \<le> k \<and> k \<le> n - 1 \<and> P k" by blast
next
  assume "\<exists>k::int. 1 \<le> k \<and> k \<le> n - 1 \<and> P k"
  then obtain k :: int where k: "1 \<le> k" "k \<le> n - 1" "P k" by blast
  then have "0 < nat (n - k) \<and> nat (n - k) \<le> nat (n - 1) \<and> n - int (nat (n - k)) = k" by auto
  with k show "\<exists>m::nat. 0 < m \<and> m \<le> nat (n - 1) \<and> P (n - int m)" by metis
qed

lemma occupied_between_iff:
  "occupied_between g sr sc er ec =
     (\<exists>k. 1 \<le> k \<and> k \<le> distance sr sc er ec - 1 \<and>
          cell g (sr + k * sgn (er - sr)) (sc + k * sgn (ec - sc)) \<noteq> 0)"
  by (auto simp: occupied_between_def between_def list_ex_iff)

lemma end_from_start: "(b::int) = a + \<bar>b - a\<bar> * sgn (b - a)"
  by (simp add: sgn_if)

lemma clear_path_vertical:
  assumes "sc = ec" "sr \<noteq> er"
  shows "clear_path g sr sc er ec arr =
           (if occupied_between g sr sc er ec then False else destination_rule g er ec arr)"
proof -
  define d where "d = sgn (er - sr)"
  define n where "n = \<bar>er - sr\<bar>"
  have pd: "path_direction sr er = d" using assms by (simp add: d_def path_direction_sgn)
  have n1: "1 \<le> n" using assms by (simp add: n_def)
  have dist: "distance sr sc er ec = n" using assms by (simp add: distance_def n_def)
  have er: "er = sr + n * d" unfolding n_def d_def by (rule end_from_start)
  have dd: "d * d = 1" using assms by (auto simp: d_def sgn_if)
  have start: "sr + d = er - int (nat (n - 1)) * d"
    using n1 dd by (simp add: er algebra_simps)
  have pos: "\<And>m. er - int m * d = sr + (n - int m) * d" by (simp add: er algebra_simps)
  have occ: "occupied_between g sr sc er ec =
      (\<exists>m::nat. 0 < m \<and> m \<le> nat (n - 1) \<and> cell g (er - int m * d) sc \<noteq> 0)"
    unfolding occupied_between_iff dist pos
    using reindex[of n "\<lambda>k. cell g (sr + k * d) sc \<noteq> 0"] assms by (simp add: d_def)
  show ?thesis
  proof (cases "n = 1")
    case True
    then have "\<bar>er - sr\<bar> = 1" by (simp add: n_def)
    moreover have "\<not> occupied_between g sr sc er ec"
      using True by (simp add: occupied_between_iff dist)
    ultimately show ?thesis using assms by (simp add: clear_path_def destination_rule_def)
  next
    case False
    with n1 have far: "er - sr > 1 \<or> er - sr < -1" "\<bar>er - sr\<bar> \<noteq> 1" by (auto simp: n_def)
    have "clear_path g sr sc er ec arr = clear_vertical g sr sc er arr (sr + d)"
      using assms far by (simp add: clear_path_def pd Let_def)
    also have "\<dots> = (if occupied_between g sr sc er ec then False else destination_rule g er sc arr)"
      unfolding start occ by (rule clear_vertical_walk[OF pd])
    finally show ?thesis using assms by simp
  qed
qed


lemma clear_path_horizontal:
  assumes "sr = er" "sc \<noteq> ec"
  shows "clear_path g sr sc er ec arr =
           (if occupied_between g sr sc er ec then False else destination_rule g er ec arr)"
proof -
  define d where "d = sgn (ec - sc)"
  define n where "n = \<bar>ec - sc\<bar>"
  have pd: "path_direction sc ec = d" using assms by (simp add: d_def path_direction_sgn)
  have n1: "1 \<le> n" using assms by (simp add: n_def)
  have dist: "distance sr sc er ec = n" using assms by (simp add: distance_def n_def)
  have ec: "ec = sc + n * d" unfolding n_def d_def by (rule end_from_start)
  have dd: "d * d = 1" using assms by (auto simp: d_def sgn_if)
  have start: "sc + d = ec - int (nat (n - 1)) * d"
    using n1 dd by (simp add: ec algebra_simps)
  have pos: "\<And>m. ec - int m * d = sc + (n - int m) * d" by (simp add: ec algebra_simps)
  have occ: "occupied_between g sr sc er ec =
      (\<exists>m::nat. 0 < m \<and> m \<le> nat (n - 1) \<and> cell g sr (ec - int m * d) \<noteq> 0)"
    unfolding occupied_between_iff dist pos
    using reindex[of n "\<lambda>k. cell g sr (sc + k * d) \<noteq> 0"] assms by (simp add: d_def)
  show ?thesis
  proof (cases "n = 1")
    case True
    then have "\<bar>ec - sc\<bar> = 1" by (simp add: n_def)
    moreover have "\<not> occupied_between g sr sc er ec"
      using True by (simp add: occupied_between_iff dist)
    ultimately show ?thesis using assms by (simp add: clear_path_def destination_rule_def)
  next
    case False
    with n1 have far: "ec - sc > 1 \<or> ec - sc < -1" "\<bar>ec - sc\<bar> \<noteq> 1" by (auto simp: n_def)
    have "clear_path g sr sc er ec arr = clear_horizontal g sr sc ec arr (sc + d)"
      using assms far by (simp add: clear_path_def pd Let_def)
    also have "\<dots> = (if occupied_between g sr sc er ec then False else destination_rule g sr ec arr)"
      unfolding start occ by (rule clear_horizontal_walk[OF pd])
    finally show ?thesis using assms by simp
  qed
qed

lemma clear_path_diagonal:
  assumes "sr \<noteq> er" "sc \<noteq> ec" "\<bar>er - sr\<bar> = \<bar>ec - sc\<bar>"
  shows "clear_path g sr sc er ec arr =
           (if occupied_between g sr sc er ec then False else destination_rule g er ec arr)"
proof -
  define d where "d = sgn (er - sr)"
  define e where "e = sgn (ec - sc)"
  define n where "n = \<bar>er - sr\<bar>"
  have pd: "path_direction sr er = d" using assms by (simp add: d_def path_direction_sgn)
  have pe: "path_direction sc ec = e" using assms by (simp add: e_def path_direction_sgn)
  have n1: "1 \<le> n" using assms by (simp add: n_def)
  have dist: "distance sr sc er ec = n" using assms by (simp add: distance_def n_def)
  have er: "er = sr + n * d" unfolding n_def d_def by (rule end_from_start)
  have ec: "ec = sc + n * e" unfolding n_def e_def assms(3) by (rule end_from_start)
  have dd: "d * d = 1" "e * e = 1" using assms by (auto simp: d_def e_def sgn_if)
  have start: "sr + d = er - int (nat (n - 1)) * d" "sc + e = ec - int (nat (n - 1)) * e"
    using n1 dd by (simp_all add: er ec algebra_simps)
  have pos: "\<And>m. er - int m * d = sr + (n - int m) * d"
            "\<And>m. ec - int m * e = sc + (n - int m) * e"
    by (simp_all add: er ec algebra_simps)
  have occ: "occupied_between g sr sc er ec =
      (\<exists>m::nat. 0 < m \<and> m \<le> nat (n - 1) \<and> cell g (er - int m * d) (ec - int m * e) \<noteq> 0)"
    unfolding occupied_between_iff dist pos
    using reindex[of n "\<lambda>k. cell g (sr + k * d) (sc + k * e) \<noteq> 0"] by (simp add: d_def e_def)
  show ?thesis
  proof (cases "n = 1")
    case True
    then have "\<bar>er - sr\<bar> = 1" "\<bar>ec - sc\<bar> = 1" using assms by (simp_all add: n_def)
    moreover have "\<not> occupied_between g sr sc er ec"
      using True by (simp add: occupied_between_iff dist)
    ultimately show ?thesis using assms by (simp add: clear_path_def destination_rule_def)
  next
    case False
    with n1 have far: "\<bar>er - sr\<bar> \<noteq> 1" by (auto simp: n_def)
    have "clear_path g sr sc er ec arr = clear_diagonal g sr sc er ec arr (sr + d) (sc + e)"
      using assms far by (simp add: clear_path_def pd pe Let_def)
    also have "\<dots> = (if occupied_between g sr sc er ec then False else destination_rule g er ec arr)"
      unfolding start occ by (rule clear_diagonal_walk[OF pd pe])
    finally show ?thesis .
  qed
qed

text \<open>
  C9. For a start and an end square on one line, \<^verbatim>\<open>clear_path\<close> is false when a
  square strictly between them is occupied; otherwise, with an occupied end square it is
  true exactly when the directive starts with \<^verbatim>\<open>x\<close>, and with an empty end square it is
  true whatever the directive. At distance 1 there is no square between, and the answer
  is the destination rule alone.
\<close>

theorem clear_path_rule:
  assumes "on_board start_row start_col" "on_board end_row end_col"
    and "on_line start_row start_col end_row end_col"
  shows "clear_path g start_row start_col end_row end_col arr =
           (if occupied_between g start_row start_col end_row end_col then False
            else if cell g end_row end_col \<noteq> EMPTY then at arr 0 = CHR ''x''
            else True) \<and>
         (distance start_row start_col end_row end_col = 1 \<longrightarrow>
            clear_path g start_row start_col end_row end_col arr =
              destination_rule g end_row end_col arr)"
proof -
  have rule: "clear_path g start_row start_col end_row end_col arr =
           (if occupied_between g start_row start_col end_row end_col then False
            else destination_rule g end_row end_col arr)"
    using assms(3) clear_path_vertical[of start_col end_col start_row end_row g arr]
      clear_path_horizontal[of start_row end_row start_col end_col g arr]
      clear_path_diagonal[of start_row end_row start_col end_col g arr]
    unfolding on_line_def by metis
  have "distance start_row start_col end_row end_col = 1 \<Longrightarrow>
          \<not> occupied_between g start_row start_col end_row end_col"
    by (simp add: occupied_between_iff)
  with rule show ?thesis by (auto simp: destination_rule_def)
qed

theorem clear_path_rule_witness:
  "on_board 0 0 \<and> on_board 0 3 \<and> on_line 0 0 0 3 \<and>
   occupied_between (game rook_behind_knight) 0 0 0 3 \<and>
   clear_path (game rook_behind_knight) 0 0 0 3 ''xBP'' = False \<and>
   on_board 0 1 \<and> on_board 1 1 \<and> on_line 0 1 1 1 \<and> distance 0 1 1 1 = 1 \<and>
   clear_path (game rook_behind_knight) 0 1 1 1 ''xBP'' = True \<and>
   clear_path (game rook_behind_knight) 0 1 1 1 [] = False"
proof -
  have b: "on_board 0 0" "on_board 0 3" "on_board 0 1" "on_board 1 1"
    by (simp_all add: on_board_def)
  have l: "on_line 0 0 0 3" "on_line 0 1 1 1" by (simp_all add: on_line_def)
  have d: "distance 0 1 1 1 = 1" by (simp add: distance_def)
  have occ: "occupied_between (game rook_behind_knight) 0 0 0 3" by code_simp
  have nocc: "\<not> occupied_between (game rook_behind_knight) 0 1 1 1" by code_simp
  have dest: "cell (game rook_behind_knight) 1 1 \<noteq> 0"
    by (simp add: rook_behind_knight_def state_of_def position_def cell_def)
  have x: "at ''xBP'' 0 = CHR ''x''" "at [] 0 \<noteq> CHR ''x''" by (simp_all add: at_def)
  show ?thesis
    using clear_path_rule[OF b(1) b(2) l(1), of "game rook_behind_knight" "''xBP''"]
      clear_path_rule[OF b(3) b(4) l(2), of "game rook_behind_knight" "''xBP''"]
      clear_path_rule[OF b(3) b(4) l(2), of "game rook_behind_knight" "[]"]
      b l d occ nocc dest x
    by (simp add: destination_rule_def)
qed

section \<open>The validators restore the board\<close>

text \<open>
  The self-check block writes the two squares back, so it leaves the module state as it
  found it. The opponent's validator changes nothing at all when it is asked about a
  piece of the opponent's color that stands on the start square: the only other write,
  the promotion, then stores the pawn that is already there.
\<close>

lemma self_check_restores: "snd (self_check w who sr sc er ec piece) = w"
  by (auto simp: self_check_def gset_def gcell_def set_cell_def cell_def Let_def fun_eq_iff
        intro!: module_state.equality chess_game.equality)

lemma check_guard_restores: "snd (check_guard w who sr sc er ec piece bc) = w"
  using self_check_restores[of w who sr sc er ec piece]
  by (auto simp: check_guard_def split: prod.splits)

lemma cpu_finish_restores: "snd (cpu_finish w sr sc er ec piece bc) = w"
  using check_guard_restores[of w "cpu w" sr sc er ec piece bc]
  by (auto simp: cpu_finish_def split: prod.splits)

lemma gset_same: "gset w r c (gcell w r c) = w"
  by (simp add: gset_def gcell_def set_cell_def cell_def)

lemma cpu_promote_own_pawn:
  assumes "(cpu w = CHR ''B'' \<and> piece < 0) \<or> (cpu w = CHR ''W'' \<and> piece > 0)"
    and "\<bar>piece\<bar> = 1" and "piece = gcell w sr sc"
  shows "cpu_promote w r sr sc er bc = w"
proof -
  have "piece = (if cpu w = CHR ''W'' then 1 else -1)" using assms(1,2) by auto
  then have "gset w sr sc (if cpu w = CHR ''W'' then 1 else -1) = w"
    using assms(3) gset_same[of w sr sc] by simp
  then show ?thesis
    by (auto simp: cpu_promote_def cpu_promotion_W cpu_promotion_B dest!: far_rank_cases)
qed

lemma cpu_pawn_restores:
  assumes "(cpu w = CHR ''B'' \<and> piece < 0) \<or> (cpu w = CHR ''W'' \<and> piece > 0)"
    and "\<bar>piece\<bar> = 1" and "piece = gcell w sr sc"
  shows "snd (cpu_pawn w r sr sc er ec piece) = w"
  by (simp only: cpu_pawn_def Let_def cpu_promote_own_pawn[OF assms])
     (simp add: cpu_finish_restores)

lemma cpu_legal_move_restores:
  assumes "(cpu w = CHR ''B'' \<and> piece < 0) \<or> (cpu w = CHR ''W'' \<and> piece > 0)"
    and "piece = gcell w sr sc"
  shows "snd (cpu_legal_move w r sr sc er ec piece) = w"
  using cpu_pawn_restores[OF assms(1) _ assms(2)]
  by (simp add: cpu_legal_move_def cpu_rook_def cpu_knight_def cpu_bishop_def cpu_queen_def
        cpu_king_def Let_def cpu_finish_restores)

section \<open>What cpu_move collects\<close>

text \<open>
  Called on the global game, the scan of \<^verbatim>\<open>cpu_move\<close> leaves the module state as it is
  and fills the array with the candidates in scan order, up to 64 of them.
\<close>

lemma capped_Nil: "capped acc [] = acc"
  by (simp add: capped_def)

lemma capped_Cons:
  "capped acc (m # xs) = capped (if length acc < 64 then acc @ [m] else acc) xs"
  by (auto simp: capped_def take_Cons' Suc_diff_Suc)

lemma capped_append: "capped (capped acc xs) ys = capped acc (xs @ ys)"
  by (induction xs arbitrary: acc) (simp_all add: capped_Nil capped_Cons)

lemma cpu_try_end_step:
  assumes "cpu_owns w piece" "piece = gcell w i j"
  shows "cpu_try_end draws i j piece (k, l) (acc, w) =
           (capped acc (filter (cpu_candidate w) [(i, j, k, l)]), w)"
proof -
  have own: "(cpu w = CHR ''B'' \<and> piece < 0) \<or> (cpu w = CHR ''W'' \<and> piece > 0)"
    using assms(1) by (simp add: cpu_owns_def)
  obtain ok w' where r: "cpu_legal_move w (draws (i, j, k, l)) i j k l piece = (ok, w')"
    by (cases "cpu_legal_move w (draws (i, j, k, l)) i j k l piece")
  have w': "w' = w" using cpu_legal_move_restores[OF own assms(2), of "draws (i, j, k, l)" k l] r by simp
  have "fst (cpu_legal_move w 0 i j k l piece) = ok"
    using r cpu_legal_move_draw[of w "draws (i, j, k, l)" i j k l piece] by (metis fst_conv)
  then have ok: "ok = cpu_candidate w (i, j, k, l)"
    using assms by (simp add: cpu_candidate_def)
  show ?thesis
    by (simp add: cpu_try_end_def r w' ok capped_Nil capped_Cons)
qed

lemma cpu_try_end_fold:
  assumes "cpu_owns w piece" "piece = gcell w i j"
  shows "fold (cpu_try_end draws i j piece) ends (acc, w) =
           (capped acc (filter (cpu_candidate w) (map (\<lambda>(k, l). (i, j, k, l)) ends)), w)"
proof (induction ends arbitrary: acc)
  case Nil
  show ?case by (simp add: capped_Nil)
next
  case (Cons kl ends)
  obtain k l where kl: "kl = (k, l)" by (cases kl)
  show ?case
    by (simp add: kl cpu_try_end_step[OF assms] Cons.IH capped_append capped_Nil)
qed

lemma not_owned_no_candidate:
  assumes "\<not> cpu_owns w (gcell w i j)"
  shows "filter (cpu_candidate w) (moves_from (i, j)) = []"
  using assms by (auto simp: moves_from_def cpu_candidate_def filter_empty_conv)

lemma cpu_try_start_step:
  "cpu_try_start draws Global_game (i, j) (acc, w) =
     (capped acc (filter (cpu_candidate w) (moves_from (i, j))), w)"
proof (cases "cpu_owns w (gcell w i j)")
  case True
  then show ?thesis
    using cpu_try_end_fold[OF True refl, of draws all_squares acc]
    by (simp add: cpu_try_start_def deref_def gcell_def[symmetric] cpu_owns_def moves_from_def Let_def)
next
  case False
  then show ?thesis
    using not_owned_no_candidate[OF False]
    by (auto simp: cpu_try_start_def deref_def gcell_def[symmetric] cpu_owns_def capped_Nil Let_def)
qed

lemma cpu_try_start_fold:
  "fold (cpu_try_start draws Global_game) starts (acc, w) =
     (capped acc (filter (cpu_candidate w) (concat (map moves_from starts))), w)"
proof (induction starts arbitrary: acc)
  case Nil
  show ?case by (simp add: capped_Nil)
next
  case (Cons ij starts)
  obtain i j where ij: "ij = (i, j)" by (cases ij)
  show ?case
    by (simp add: ij cpu_try_start_step Cons.IH capped_append)
qed

lemma cpu_scan_collects:
  "cpu_scan w draws Global_game = (take 64 (cpu_candidates w), w)"
  by (simp add: cpu_scan_def cpu_try_start_fold cpu_candidates_def all_moves_def capped_def)


lemma cpu_candidates_by_square:
  "cpu_candidates w = concat (map (candidates_from w) all_squares)"
proof -
  have "\<And>ij. filter (cpu_candidate w) (moves_from ij) = candidates_from w ij"
    using not_owned_no_candidate[of w] by (auto simp: candidates_from_def)
  then show ?thesis
    by (simp add: cpu_candidates_def all_moves_def filter_concat comp_def)
qed

lemma cornered_none: "cpu_candidates cornered = []"
  unfolding cpu_candidates_by_square by code_simp



text \<open>
  C7. When no pair is a candidate, \<^verbatim>\<open>cpu_move\<close> returns the module state it was given:
  board, king caches, turn and check flag are unchanged.
\<close>

theorem cpu_move_without_candidates:
  assumes "cpu_candidates w = []"
  shows "cpu_move w draws rand_val Global_game = w"
  by (simp add: cpu_move_def cpu_scan_collects assms)

theorem cpu_move_without_candidates_witness:
  "cpu_candidates cornered = [] \<and> cpu_move cornered zero_draws 5 Global_game = cornered"
  using cpu_move_without_candidates[OF cornered_none, of zero_draws 5] cornered_none by simp




end
